theory Spec2Isabelle
  imports Main
begin

section \<open>JSON Schema nodes\<close>

text \<open>
  The value of a node's \<^verbatim>\<open>type\<close> key: one type name, or (as JSON Schema allows) an array
  of type names.
\<close>

datatype type_name = TypeName string | TypeNames "string list"

text \<open>
  A schema node (\<^verbatim>\<open>JSONSchema7\<close>), with the keys that \<^verbatim>\<open>schemaReducer.ts\<close> reads. An
  absent key (\<^verbatim>\<open>undefined\<close>) is \<open>None\<close>. \<open>sid\<close> is \<^verbatim>\<open>$id\<close>, \<open>stype\<close> is \<^verbatim>\<open>type\<close>, \<open>senum\<close>
  is \<^verbatim>\<open>enum\<close>, \<open>sref\<close> is \<^verbatim>\<open>$ref\<close>, \<open>sthen\<close> is \<^verbatim>\<open>then\<close>, and \<open>sschema\<close> is
  \<^verbatim>\<open>$schema\<close>, which the code hands to Ajv with the document. \<open>properties\<close> lists the
  properties in the key order of the object; \<open>oneOf\<close> is the array of cases. Every
  sub-schema is a node, as the casts of the code take it, and the members of an \<^verbatim>\<open>enum\<close>
  are strings.
\<close>

datatype schema = Schema
  (sid: "string option")
  (oneOf: "schema list option")
  (stype: "type_name option")
  (properties: "(string \<times> schema) list option")
  (required: "string list option")
  (items: "schema option")
  (senum: "string list option")
  (sref: "string option")
  (title: "string option")
  (description: "string option")
  (sthen: "schema option")
  (sschema: "string option")

section \<open>Constructed types\<close>

text \<open>
  The second argument of the \<^verbatim>\<open>getTypeProperties\<close> hook is the class of the type under
  construction.
\<close>

datatype graphql_class = GraphQLObjectType_class | GraphQLEnumType_class

text \<open>
  Modelled from the spec: the type \<^verbatim>\<open>GetTypeProperties\<close> of the hook is declared in
  \<^verbatim>\<open>types.ts\<close>, which is not among the sources. By section 4.4 of the specification the
  hook contributes additional configuration, here of type \<open>'x\<close>, which is merged beside
  the name, the description and the fields or values that \<open>buildType\<close> sets itself.
\<close>

type_synonym 'x GetTypeProperties = "string \<Rightarrow> graphql_class \<Rightarrow> 'x"

text \<open>
  The function \<^verbatim>\<open>fields\<close> of an object type is a closure (lines 60 to 72): it captures
  the type's name, the node and the hook, and reads the registry, shared by reference,
  when it is called. \<open>buildType\<close> does not call it; the \<^verbatim>\<open>graphql\<close> package does, when
  the fields of the type are first asked for. The closure is kept as data; \<open>fields\<close>
  below runs it against the registry as it is at the moment of the call.
\<close>

datatype 'x thunk = Fields string schema "'x GetTypeProperties option"

text \<open>
  The values of the \<^verbatim>\<open>graphql\<close> package that the code constructs and passes on.
  \<open>Inherited k\<close> is a value that is not a GraphQL type and that a property read finds
  along the prototype chain under the key \<open>k\<close>, such as the member \<open>k\<close> of
  \<^verbatim>\<open>Object.prototype\<close>.
\<close>

datatype 'x gtype =
    GraphQLString
  | GraphQLInt
  | GraphQLFloat
  | GraphQLBoolean
  | GraphQLList "'x gtype"
  | GraphQLNonNull "'x gtype"
  | GraphQLObjectType string "string option" "'x thunk" "'x option"
  | GraphQLEnumType string "string option" "string \<rightharpoonup> string" "'x option"
  | GraphQLUnionType string "string option" "'x gtype list"
  | Inherited string

text \<open>
  A plain object of JavaScript, as the code reads and writes it: its own properties,
  and what a read finds along its prototype chain under a key that is not an own
  property (\<open>None\<close> when the read yields \<^verbatim>\<open>undefined\<close> or another falsy value). The
  registry \<^verbatim>\<open>knownTypes\<close> and \<^verbatim>\<open>BASIC_TYPE_MAPPING\<close> are such objects.
\<close>

record 'x GraphQLTypeMap =
  own :: "string \<rightharpoonup> 'x gtype"
  inherited :: "string \<Rightarrow> 'x gtype option"

record 'x SchemaData =
  sd_schema :: schema
  sd_getTypeProperties :: "'x GetTypeProperties option"

record 'x field_config =
  ftype :: "'x gtype"
  fdescription :: "string option"

text \<open>
  The errors that the code throws, with the data their messages carry: a document without
  \<^verbatim>\<open>$id\<close> (line 34), an enum whose type is not \<^verbatim>\<open>string\<close> with the name (line 89), an
  unknown \<^verbatim>\<open>$ref\<close> with the key and the name (line 104), an unknown type with the type
  and the name (line 114), the \<open>TypeError\<close> of JavaScript for a property read on
  \<^verbatim>\<open>undefined\<close>, the error of \<^verbatim>\<open>new GraphQLNonNull\<close> for an argument that is not a
  nullable GraphQL type (lines 67 and 84), and an error of the Ajv call of line 31 with
  its message.
\<close>

datatype error =
    MissingId
  | OnlyStringEnums string
  | UnknownReference string string
  | UnknownType "type_name option" string
  | TypeError
  | NotANullableType
  | AjvError string

section \<open>Property reads on plain objects\<close>

text \<open>
  The prototype of an object literal is \<^verbatim>\<open>Object.prototype\<close>, whose members are all
  truthy. \<open>empty_object\<close> is the \<^verbatim>\<open>{}\<close> that \<^verbatim>\<open>index.ts\<close> gives to the fold
  (line 37).
\<close>

definition Object_prototype_names :: "string list" where
  "Object_prototype_names =
     [''constructor'', ''__defineGetter__'', ''__defineSetter__'', ''hasOwnProperty'',
      ''__lookupGetter__'', ''__lookupSetter__'', ''isPrototypeOf'',
      ''propertyIsEnumerable'', ''toString'', ''valueOf'', ''__proto__'',
      ''toLocaleString'']"

definition Object_prototype :: "string \<Rightarrow> 'x gtype option" where
  "Object_prototype key =
     (if key \<in> set Object_prototype_names then Some (Inherited key) else None)"

definition object_literal :: "(string \<rightharpoonup> 'x gtype) \<Rightarrow> 'x GraphQLTypeMap" where
  "object_literal m = \<lparr>own = m, inherited = Object_prototype\<rparr>"

definition empty_object :: "'x GraphQLTypeMap" where
  "empty_object = object_literal Map.empty"

text \<open>
  A read \<^verbatim>\<open>obj[key]\<close>, with \<open>None\<close> for a result that the tests of lines 104 and 109
  take as missing: the own property, and otherwise what the prototype chain holds.
\<close>

definition getProperty :: "'x GraphQLTypeMap \<Rightarrow> string \<Rightarrow> 'x gtype option" where
  "getProperty obj key =
     (case own obj key of
        Some v \<Rightarrow> Some v
      | None \<Rightarrow> inherited obj key)"

definition BASIC_TYPE_MAPPING :: "'x GraphQLTypeMap" where
  "BASIC_TYPE_MAPPING =
     object_literal
       [''string'' \<mapsto> GraphQLString, ''integer'' \<mapsto> GraphQLInt,
        ''number'' \<mapsto> GraphQLFloat, ''boolean'' \<mapsto> GraphQLBoolean]"

text \<open>The string that a value of \<^verbatim>\<open>schema.type\<close> becomes when it is used as a key.\<close>

fun join_comma :: "string list \<Rightarrow> string" where
  "join_comma [] = []"
| "join_comma [x] = x"
| "join_comma (x # y # ys) = x @ '','' @ join_comma (y # ys)"

fun property_key :: "type_name option \<Rightarrow> string" where
  "property_key None = ''undefined''"
| "property_key (Some (TypeName s)) = s"
| "property_key (Some (TypeNames ss)) = join_comma ss"

text \<open>\<^verbatim>\<open>Object.keys\<close> of an array: the indices, in decimal.\<close>

function decimal :: "nat \<Rightarrow> string" where
  "decimal n =
     (if n < 10 then [''0123456789'' ! n]
      else decimal (n div 10) @ [''0123456789'' ! (n mod 10)])"
  by pat_completeness auto
termination
  by (relation "measure (\<lambda>n. n)") auto

definition array_keys :: "'a list \<Rightarrow> string list" where
  "array_keys xs = map decimal [0..<length xs]"

section \<open>The description composer\<close>

text \<open>
  Lines 117 to 120. A string is truthy when it is not empty; \<^verbatim>\<open>undefined\<close> is falsy.
\<close>

fun truthy :: "string option \<Rightarrow> bool" where
  "truthy None = False"
| "truthy (Some s) = (s \<noteq> [])"

definition buildDescription :: "schema \<Rightarrow> string option" where
  "buildDescription d =
     (if truthy (title d) \<and> truthy (description d)
      then Some (the (title d) @ '': '' @ the (description d))
      else if truthy (title d) then title d
      else if truthy (description d) then description d
      else None)"

section \<open>The schema compiler\<close>

text \<open>
  \<^verbatim>\<open>Array.prototype.map\<close> and \<^verbatim>\<open>_.mapValues\<close> with a callback that may throw: the
  elements are visited in order and the first error ends the traversal.
\<close>

fun map_throwing :: "('a \<Rightarrow> error + 'b) \<Rightarrow> 'a list \<Rightarrow> error + 'b list" where
  "map_throwing f [] = Inr []"
| "map_throwing f (x # xs) =
     (case f x of
        Inl e \<Rightarrow> Inl e
      | Inr y \<Rightarrow> (case map_throwing f xs of Inl e \<Rightarrow> Inl e | Inr ys \<Rightarrow> Inr (y # ys)))"

text \<open>\<^verbatim>\<open>caseSchema.then || caseSchema\<close> (line 50).\<close>

definition typeSchema :: "schema \<Rightarrow> schema" where
  "typeSchema caseSchema = (case sthen caseSchema of Some t \<Rightarrow> t | None \<Rightarrow> caseSchema)"

text \<open>
  \<^verbatim>\<open>_.keyBy(schema.enum, graphqlSafeEnumKey)\<close>: a later value replaces an equal key. The
  map holds, under each key, the literal of its \<^verbatim>\<open>{value}\<close> entry (line 92).
\<close>

definition keyBy :: "string list \<Rightarrow> (string \<Rightarrow> string) \<Rightarrow> (string \<rightharpoonup> string)" where
  "keyBy vs f = foldl (\<lambda>m v. m(f v \<mapsto> v)) Map.empty vs"


fun isNullableType :: "'x gtype \<Rightarrow> bool" where
  "isNullableType (GraphQLNonNull t) = False"
| "isNullableType (Inherited k) = False"
| "isNullableType t = True"

definition new_GraphQLNonNull :: "'x gtype \<Rightarrow> error + 'x gtype" where
  "new_GraphQLNonNull t =
     (if isNullableType t then Inr (GraphQLNonNull t) else Inl NotANullableType)"

lemma map_throwing_cong [fundef_cong]:
  "xs = ys \<Longrightarrow> (\<And>x. x \<in> set ys \<Longrightarrow> f x = g x) \<Longrightarrow> map_throwing f xs = map_throwing g ys"
proof (induction ys arbitrary: xs)
  case Nil
  then show ?case by simp
next
  case (Cons y ys)
  then show ?case by (simp split: sum.splits)
qed

lemma size_typeSchema: "size (typeSchema c) \<le> size c"
  by (cases c) (simp add: typeSchema_def split: option.splits)

lemma size_case_member:
  "oneOf s = Some cases \<Longrightarrow> c \<in> set cases \<Longrightarrow> size c < size s"
  by (cases s) (auto dest: size_list_estimation' [where f = size and y = "size c"])

lemma size_items: "items s = Some it \<Longrightarrow> size it < size s"
  by (cases s) simp

text \<open>
  \<open>buildType\<close>, lines 40 to 115. \<open>U\<close> is the function of the package \<^verbatim>\<open>uppercamelcase\<close>
  and \<open>K\<close> is \<^verbatim>\<open>graphqlSafeEnumKey\<close>, of a module that is not among the sources
  (specification, section 4.1: a function on strings without error condition). The
  branches are tried in the order of the source. The object branch does not visit the
  properties: it returns the type with its closure. A node whose \<^verbatim>\<open>items\<close> is absent
  makes the recursive call read \<^verbatim>\<open>oneOf\<close> of \<^verbatim>\<open>undefined\<close>, a \<open>TypeError\<close>. The
  constructors of the union, object, enum and list types are data constructors.
\<close>

function buildType ::
  "(string \<Rightarrow> string) \<Rightarrow> (string \<Rightarrow> string) \<Rightarrow> string \<Rightarrow> schema \<Rightarrow> 'x GraphQLTypeMap \<Rightarrow>
   'x GetTypeProperties option \<Rightarrow> error + 'x gtype"
where
  "buildType U K propName schema knownTypes getTypeProperties =
     (let name = U propName in
      case oneOf schema of
        Some cases \<Rightarrow>
          (case map_throwing
                  (\<lambda>(caseName, caseSchema).
                     buildType U K (name @ ''.oneOf['' @ caseName @ '']'')
                       (typeSchema caseSchema) knownTypes getTypeProperties)
                  (zip (array_keys cases) cases) of
             Inl e \<Rightarrow> Inl e
           | Inr types \<Rightarrow> Inr (GraphQLUnionType name (buildDescription schema) types))
      | None \<Rightarrow>
          if stype schema = Some (TypeName ''object'') then
            Inr (GraphQLObjectType name (buildDescription schema)
                   (Fields name schema getTypeProperties)
                   (map_option (\<lambda>g. g name GraphQLObjectType_class) getTypeProperties))
          else if stype schema = Some (TypeName ''array'') then
            (case items schema of
               None \<Rightarrow> Inl TypeError
             | Some it \<Rightarrow>
                 (case buildType U K name it knownTypes getTypeProperties of
                    Inl e \<Rightarrow> Inl e
                  | Inr elementType \<Rightarrow>
                      (case new_GraphQLNonNull elementType of
                         Inl e \<Rightarrow> Inl e
                       | Inr nonNull \<Rightarrow> Inr (GraphQLList nonNull))))
          else if senum schema \<noteq> None then
            (if stype schema \<noteq> Some (TypeName ''string'') then Inl (OnlyStringEnums name)
             else Inr (GraphQLEnumType name (buildDescription schema)
                         (keyBy (the (senum schema)) K)
                         (map_option (\<lambda>g. g name GraphQLEnumType_class) getTypeProperties)))
          else if sref schema \<noteq> None then
            (case getProperty knownTypes (the (sref schema)) of
               None \<Rightarrow> Inl (UnknownReference (the (sref schema)) name)
             | Some type \<Rightarrow> Inr type)
          else
            (case getProperty BASIC_TYPE_MAPPING (property_key (stype schema)) of
               Some type \<Rightarrow> Inr type
             | None \<Rightarrow> Inl (UnknownType (stype schema) name)))"
  by pat_completeness auto
termination
proof (relation "measure (\<lambda>(U, K, propName, schema, knownTypes, g). size schema)")
  show "wf (measure (\<lambda>(U, K, propName, schema, knownTypes, g). size schema))"
    by simp
next
  fix schema :: schema and cases :: "schema list" and z :: "string \<times> schema"
    and caseName :: string and caseSchema :: schema
    and U K :: "string \<Rightarrow> string" and propName name :: string
    and knownTypes :: "'x GraphQLTypeMap" and g :: "'x GetTypeProperties option"
  assume "oneOf schema = Some cases" and "z \<in> set (zip (array_keys cases) cases)"
    and "(caseName, caseSchema) = z"
  then have "caseSchema \<in> set cases"
    by (auto dest: set_zip_rightD)
  with \<open>oneOf schema = Some cases\<close> have "size caseSchema < size schema"
    by (rule size_case_member)
  with size_typeSchema [of caseSchema]
  show "((U, K, name @ ''.oneOf['' @ caseName @ '']'', typeSchema caseSchema, knownTypes, g),
         (U, K, propName, schema, knownTypes, g))
        \<in> measure (\<lambda>(U, K, propName, schema, knownTypes, g). size schema)"
    by simp
next
  fix schema :: schema and it :: schema
    and U K :: "string \<Rightarrow> string" and propName name :: string
    and knownTypes :: "'x GraphQLTypeMap" and g :: "'x GetTypeProperties option"
  assume "items schema = Some it"
  then show "((U, K, name, it, knownTypes, g), (U, K, propName, schema, knownTypes, g))
        \<in> measure (\<lambda>(U, K, propName, schema, knownTypes, g). size schema)"
    by (simp add: size_items)
qed

declare buildType.simps [simp del]

text \<open>\<^verbatim>\<open>_.isEmpty\<close> of the properties and \<^verbatim>\<open>_.includes\<close> of the required names.\<close>

definition isEmpty :: "'a list option \<Rightarrow> bool" where
  "isEmpty ps = (case ps of None \<Rightarrow> True | Some xs \<Rightarrow> xs = [])"

definition includes_name :: "string list option \<Rightarrow> string \<Rightarrow> bool" where
  "includes_name xs x = (case xs of None \<Rightarrow> False | Some ys \<Rightarrow> x \<in> set ys)"

text \<open>
  The body of the closure \<^verbatim>\<open>fields\<close> (lines 60 to 72), run against the registry
  \<open>knownTypes\<close> as it is when the closure is called.
\<close>

fun fields ::
  "(string \<Rightarrow> string) \<Rightarrow> (string \<Rightarrow> string) \<Rightarrow> 'x thunk \<Rightarrow> 'x GraphQLTypeMap \<Rightarrow>
   error + (string \<times> 'x field_config) list"
where
  "fields U K (Fields name schema getTypeProperties) knownTypes =
     (if \<not> isEmpty (properties schema) then
        map_throwing
          (\<lambda>(fieldName, prop).
             case buildType U K (name @ ''.'' @ fieldName) prop knownTypes getTypeProperties of
               Inl e \<Rightarrow> Inl e
             | Inr type \<Rightarrow>
                 if includes_name (required schema) fieldName then
                   (case new_GraphQLNonNull type of
                      Inl e \<Rightarrow> Inl e
                    | Inr nonNull \<Rightarrow>
                        Inr (fieldName,
                             \<lparr>ftype = nonNull, fdescription = buildDescription prop\<rparr>))
                 else Inr (fieldName, \<lparr>ftype = type, fdescription = buildDescription prop\<rparr>))
          (the (properties schema))
      else Inr [(''_empty'', \<lparr>ftype = GraphQLString, fdescription = None\<rparr>)])"

section \<open>The batch reducer\<close>

text \<open>
  \<open>schemaReducer\<close>, lines 29 to 38. Two steps depend on code outside the sources and
  are parameters.

  \<open>A\<close> is the Ajv call of line 31: \<open>A schema\<close> is the message of the error that
  \<^verbatim>\<open>new Ajv().validateSchema(schema)\<close> throws, and \<open>None\<close> when the call returns; what
  it returns is not used.

  The assignment of line 36 creates or replaces the own property \<^verbatim>\<open>typeName\<close>, for
  every key but \<^verbatim>\<open>__proto__\<close>. That key is handed to the setter of
  \<^verbatim>\<open>Object.prototype\<close>, which leaves the own properties as they are and replaces the
  prototype of the registry by the assigned value when that is an object. What the
  registry then inherits are the members of that value, which the \<^verbatim>\<open>graphql\<close> package
  defines: \<open>P t inh\<close> is what a read finds along the prototype chain after the
  assignment of \<open>t\<close>, where \<open>inh\<close> is what it found before.
\<close>

definition schemaReducer ::
  "(schema \<Rightarrow> string option) \<Rightarrow>
   ('x gtype \<Rightarrow> (string \<Rightarrow> 'x gtype option) \<Rightarrow> string \<Rightarrow> 'x gtype option) \<Rightarrow>
   (string \<Rightarrow> string) \<Rightarrow> (string \<Rightarrow> string) \<Rightarrow> 'x GraphQLTypeMap \<Rightarrow> 'x SchemaData \<Rightarrow>
   error + 'x GraphQLTypeMap"
where
  "schemaReducer A P U K knownTypes d =
     (case A (sd_schema d) of
        Some message \<Rightarrow> Inl (AjvError message)
      | None \<Rightarrow>
          (case sid (sd_schema d) of
             None \<Rightarrow> Inl MissingId
           | Some typeName \<Rightarrow>
               (case buildType U K typeName (sd_schema d) knownTypes (sd_getTypeProperties d) of
                  Inl e \<Rightarrow> Inl e
                | Inr t \<Rightarrow>
                    Inr (if typeName = ''__proto__''
                         then knownTypes\<lparr>inherited := P t (inherited knownTypes)\<rparr>
                         else knownTypes\<lparr>own := (own knownTypes)(typeName \<mapsto> t)\<rparr>))))"

text \<open>\<^verbatim>\<open>Array.prototype.reduce\<close> with a callback that may throw.\<close>

fun reduce :: "('b \<Rightarrow> 'a \<Rightarrow> error + 'b) \<Rightarrow> 'a list \<Rightarrow> 'b \<Rightarrow> error + 'b" where
  "reduce f [] acc = Inr acc"
| "reduce f (x # xs) acc =
     (case f acc x of Inl e \<Rightarrow> Inl e | Inr acc' \<Rightarrow> reduce f xs acc')"

text \<open>The registry that \<open>convert\<close> builds (\<^verbatim>\<open>index.ts\<close>, lines 32 to 37).\<close>

definition convert_types ::
  "(schema \<Rightarrow> string option) \<Rightarrow>
   ('x gtype \<Rightarrow> (string \<Rightarrow> 'x gtype option) \<Rightarrow> string \<Rightarrow> 'x gtype option) \<Rightarrow>
   (string \<Rightarrow> string) \<Rightarrow> (string \<Rightarrow> string) \<Rightarrow> schema list \<Rightarrow> 'x GetTypeProperties option \<Rightarrow>
   error + 'x GraphQLTypeMap"
where
  "convert_types A P U K jsonSchema getTypeProperties =
     reduce (schemaReducer A P U K)
       (map (\<lambda>schemaItem. \<lparr>sd_schema = schemaItem, sd_getTypeProperties = getTypeProperties\<rparr>)
          jsonSchema)
       empty_object"

section \<open>Notions used in the statements\<close>

text \<open>The node reaches the \<^verbatim>\<open>$ref\<close> branch (line 102) with the key \<open>r\<close>.\<close>

definition ref_node :: "schema \<Rightarrow> string \<Rightarrow> bool" where
  "ref_node s r \<longleftrightarrow>
     oneOf s = None \<and> stype s \<noteq> Some (TypeName ''object'') \<and>
     stype s \<noteq> Some (TypeName ''array'') \<and> senum s = None \<and> sref s = Some r"

text \<open>
  The nodes below \<open>s\<close> that \<open>buildType\<close> visits by its own recursive calls: the cases of a
  \<^verbatim>\<open>oneOf\<close> and the items of an array, but not the properties of an object.
\<close>

function eager_nodes :: "schema \<Rightarrow> schema list" where
  "eager_nodes s =
     s # (case oneOf s of
            Some cases \<Rightarrow> concat (map (\<lambda>c. eager_nodes (typeSchema c)) cases)
          | None \<Rightarrow>
              if stype s \<noteq> Some (TypeName ''object'') \<and> stype s = Some (TypeName ''array'')
              then (case items s of None \<Rightarrow> [] | Some it \<Rightarrow> eager_nodes it)
              else [])"
  by pat_completeness auto
termination
proof (relation "measure size")
  show "wf (measure (size :: schema \<Rightarrow> nat))"
    by simp
next
  fix s :: schema and cases :: "schema list" and c :: schema
  assume "oneOf s = Some cases" and "c \<in> set cases"
  then have "size c < size s"
    by (rule size_case_member)
  with size_typeSchema [of c] show "(typeSchema c, s) \<in> measure size"
    by simp
next
  fix s :: schema and it :: schema
  assume "items s = Some it"
  then show "(it, s) \<in> measure size"
    by (simp add: size_items)
qed

declare eager_nodes.simps [simp del]


text \<open>
  The node reaches a branch that constructs a type or returns a primitive: every
  branch but \<^verbatim>\<open>$ref\<close>, with one of the four primitive names in the last.
\<close>

definition builds_type :: "schema \<Rightarrow> bool" where
  "builds_type s \<longleftrightarrow>
     oneOf s \<noteq> None \<or> stype s = Some (TypeName ''object'') \<or>
     stype s = Some (TypeName ''array'') \<or> senum s \<noteq> None \<or>
     (sref s = None \<and>
      property_key (stype s) \<in> set [''string'', ''integer'', ''number'', ''boolean''])"

text \<open>The \<^verbatim>\<open>$id\<close>s of a batch, in order.\<close>

fun document_ids :: "'x SchemaData list \<Rightarrow> string list" where
  "document_ids [] = []"
| "document_ids (d # ds) =
     (case sid (sd_schema d) of None \<Rightarrow> document_ids ds | Some i \<Rightarrow> i # document_ids ds)"



section \<open>Instances of the parameters\<close>

text \<open>
  The theorems below hold for every \<open>A\<close>, \<open>P\<close>, \<open>U\<close> and \<open>K\<close>. The evaluations at
  concrete documents use the following instances. \<open>upperCamelCase\<close> drops the separators
  \<^verbatim>\<open>_ . -\<close> and space and puts the first letter of every word in upper case, as the
  package does on words written in lower case.
\<close>

definition toUpperCase_char :: "char \<Rightarrow> char" where
  "toUpperCase_char c =
     (case map_of (zip ''abcdefghijklmnopqrstuvwxyz'' ''ABCDEFGHIJKLMNOPQRSTUVWXYZ'') c of
        Some u \<Rightarrow> u
      | None \<Rightarrow> c)"

fun camel :: "bool \<Rightarrow> string \<Rightarrow> string" where
  "camel up [] = []"
| "camel up (c # cs) =
     (if c \<in> set ''_.- '' then camel True cs
      else (if up then toUpperCase_char c else c) # camel False cs)"

definition upperCamelCase :: "string \<Rightarrow> string" where
  "upperCamelCase s = camel True s"

text \<open>
  Modelled from the spec: \<^verbatim>\<open>graphqlSafeEnumKey\<close> (module \<^verbatim>\<open>graphqlSafeEnumKey\<close>, not among
  the sources) is a deterministic sanitization that leaves a legal identifier unchanged;
  this instance replaces every character that is not a letter, a digit or an underscore
  by an underscore.
\<close>

definition graphqlSafeEnumKey :: "string \<Rightarrow> string" where
  "graphqlSafeEnumKey s =
     map (\<lambda>c. if c \<in> set ''_abcdefghijklmnopqrstuvwxyzABCDEFGHIJKLMNOPQRSTUVWXYZ0123456789''
               then c else CHR ''_'') s"

text \<open>
  Ajv with its defaults holds one meta-schema, draft-07, also under the key
  \<^verbatim>\<open>http://json-schema.org/schema\<close>. \<^verbatim>\<open>validateSchema\<close> validates the document against the
  meta-schema that its \<^verbatim>\<open>$schema\<close> names, draft-07 when it has none, and returns whether
  the document is valid; it throws when it holds no schema under that key. The
  evaluations below are at documents without \<^verbatim>\<open>$schema\<close>.
\<close>

definition ajv_validateSchema :: "schema \<Rightarrow> string option" where
  "ajv_validateSchema s =
     (case sschema s of
        None \<Rightarrow> None
      | Some uri \<Rightarrow>
          if uri \<in> set [''http://json-schema.org/draft-07/schema#'',
                         ''http://json-schema.org/draft-07/schema'',
                         ''http://json-schema.org/schema#'',
                         ''http://json-schema.org/schema'']
          then None
          else Some (''no schema with key or ref '' @ [CHR 0x22] @ uri @ [CHR 0x22]))"

text \<open>
  What a registry inherits after an assignment to \<^verbatim>\<open>__proto__\<close> are the members of the
  assigned type and of its class, which the \<^verbatim>\<open>graphql\<close> package defines. A step for a
  document with another \<^verbatim>\<open>$id\<close> does not depend on \<open>P\<close> (lemma
  \<open>schemaReducer_without_assignment\<close>), and no evaluation below is at a document with the
  \<^verbatim>\<open>$id\<close> \<^verbatim>\<open>__proto__\<close>, so that the instance is never applied: it gives the key
  \<^verbatim>\<open>__proto__\<close> itself, which reads the assigned value, and nothing else.
\<close>

definition assigned_prototype ::
  "'x gtype \<Rightarrow> (string \<Rightarrow> 'x gtype option) \<Rightarrow> string \<Rightarrow> 'x gtype option"
where
  "assigned_prototype t inh key = (if key = ''__proto__'' then Some t else None)"

section \<open>Nodes and documents used in the concrete evaluations\<close>

text \<open>Nodes with one shape marker, the other keys absent.\<close>

definition primitive_node :: "string \<Rightarrow> schema" where
  "primitive_node t =
     Schema None None (Some (TypeName t)) None None None None None None None None None"

definition reference_node :: "string \<Rightarrow> schema" where
  "reference_node r = Schema None None None None None None None (Some r) None None None None"

definition described_node :: "string option \<Rightarrow> string option \<Rightarrow> schema" where
  "described_node t d = Schema None None None None None None None None t d None None"

definition enum_node :: "type_name option \<Rightarrow> string list \<Rightarrow> schema" where
  "enum_node t vs = Schema None None t None None None (Some vs) None None None None None"

definition object_node ::
  "string option \<Rightarrow> (string \<times> schema) list option \<Rightarrow> string list option \<Rightarrow> schema"
where
  "object_node i props req =
     Schema i None (Some (TypeName ''object'')) props req None None None None None None None"

definition array_node :: "string option \<Rightarrow> schema \<Rightarrow> schema" where
  "array_node i it =
     Schema i None (Some (TypeName ''array'')) None None (Some it) None None None None None None"


definition with_id :: "string \<Rightarrow> schema \<Rightarrow> schema" where
  "with_id i s =
     Schema (Some i) (oneOf s) (stype s) (properties s) (required s) (items s) (senum s)
       (sref s) (title s) (description s) (sthen s) (sschema s)"





definition string_B :: schema where
  "string_B = with_id ''B'' (primitive_node ''string'')"


definition address_document :: schema where
  "address_document = object_node (Some ''address'') None None"

definition type_address :: "unit gtype" where
  "type_address = GraphQLObjectType ''Address'' None (Fields ''Address'' address_document None) None"



definition first_A :: schema where
  "first_A = with_id ''A'' (primitive_node ''string'')"

definition second_A :: schema where
  "second_A = with_id ''A'' (primitive_node ''integer'')"

definition shapeless_A :: schema where
  "shapeless_A = with_id ''A'' (described_node None None)"



definition array_without_items :: schema where
  "array_without_items =
     Schema None None (Some (TypeName ''array'')) None None None None None None None None None"

definition list_of_toString :: schema where
  "list_of_toString = array_node None (reference_node ''toString'')"


definition list_of_C :: schema where
  "list_of_C = array_node (Some ''L'') (reference_node ''C'')"




section \<open>One equation for each branch of the compiler\<close>

lemma buildType_oneOf:
  "oneOf s = Some cases \<Longrightarrow>
   buildType U K pn s kt g =
     (case map_throwing
             (\<lambda>(caseName, caseSchema).
                buildType U K (U pn @ ''.oneOf['' @ caseName @ '']'') (typeSchema caseSchema) kt g)
             (zip (array_keys cases) cases) of
        Inl e \<Rightarrow> Inl e
      | Inr types \<Rightarrow> Inr (GraphQLUnionType (U pn) (buildDescription s) types))"
  by (subst buildType.simps) (simp add: Let_def)

lemma buildType_object:
  "oneOf s = None \<Longrightarrow> stype s = Some (TypeName ''object'') \<Longrightarrow>
   buildType U K pn s kt g =
     Inr (GraphQLObjectType (U pn) (buildDescription s) (Fields (U pn) s g)
            (map_option (\<lambda>h. h (U pn) GraphQLObjectType_class) g))"
  by (subst buildType.simps) (simp add: Let_def)

lemma buildType_array:
  "oneOf s = None \<Longrightarrow> stype s = Some (TypeName ''array'') \<Longrightarrow>
   buildType U K pn s kt g =
     (case items s of
        None \<Rightarrow> Inl TypeError
      | Some it \<Rightarrow>
          (case buildType U K (U pn) it kt g of
             Inl e \<Rightarrow> Inl e
           | Inr elementType \<Rightarrow>
               (case new_GraphQLNonNull elementType of
                  Inl e \<Rightarrow> Inl e
                | Inr nonNull \<Rightarrow> Inr (GraphQLList nonNull))))"
  by (subst buildType.simps) (simp add: Let_def)

lemma buildType_enum:
  "oneOf s = None \<Longrightarrow> stype s \<noteq> Some (TypeName ''object'') \<Longrightarrow>
   stype s \<noteq> Some (TypeName ''array'') \<Longrightarrow> senum s = Some vs \<Longrightarrow>
   buildType U K pn s kt g =
     (if stype s \<noteq> Some (TypeName ''string'') then Inl (OnlyStringEnums (U pn))
      else Inr (GraphQLEnumType (U pn) (buildDescription s) (keyBy vs K)
                  (map_option (\<lambda>h. h (U pn) GraphQLEnumType_class) g)))"
  by (subst buildType.simps) (simp add: Let_def)

lemma buildType_ref:
  "ref_node s r \<Longrightarrow>
   buildType U K pn s kt g =
     (case getProperty kt r of
        None \<Rightarrow> Inl (UnknownReference r (U pn))
      | Some type \<Rightarrow> Inr type)"
  by (subst buildType.simps) (auto simp: Let_def ref_node_def split: option.splits)

lemma buildType_basic:
  "oneOf s = None \<Longrightarrow> stype s \<noteq> Some (TypeName ''object'') \<Longrightarrow>
   stype s \<noteq> Some (TypeName ''array'') \<Longrightarrow> senum s = None \<Longrightarrow> sref s = None \<Longrightarrow>
   buildType U K pn s kt g =
     (case getProperty BASIC_TYPE_MAPPING (property_key (stype s)) of
        Some type \<Rightarrow> Inr type
      | None \<Rightarrow> Inl (UnknownType (stype s) (U pn)))"
  by (subst buildType.simps) (simp add: Let_def)

lemma upperCamelCase_examples:
  "upperCamelCase ''address'' = ''Address''"
  "upperCamelCase ''person'' = ''Person''"
  "upperCamelCase ''Person.name'' = ''PersonName''"
  "upperCamelCase ''Person.home'' = ''PersonHome''"
  by (simp_all add: upperCamelCase_def toUpperCase_char_def)

section \<open>Reads of object literals\<close>

lemma own_object_literal [simp]: "own (object_literal m) = m"
  by (simp add: object_literal_def)

lemma inherited_object_literal [simp]: "inherited (object_literal m) = Object_prototype"
  by (simp add: object_literal_def)

lemma getProperty_object_literal:
  "getProperty (object_literal m) key =
     (case m key of
        Some v \<Rightarrow> Some v
      | None \<Rightarrow> if key \<in> set Object_prototype_names then Some (Inherited key) else None)"
  by (simp add: getProperty_def Object_prototype_def split: option.splits)

lemma set_own_object_literal [simp]:
  "object_literal m\<lparr>own := m'\<rparr> = object_literal m'"
  by (simp add: object_literal_def)

lemma own_empty_object [simp]: "own empty_object = Map.empty"
  by (simp add: empty_object_def)

lemma inherited_empty_object [simp]: "inherited empty_object = Object_prototype"
  by (simp add: empty_object_def)

lemma getProperty_primitive:
  "key \<in> set [''string'', ''integer'', ''number'', ''boolean''] \<Longrightarrow>
   getProperty BASIC_TYPE_MAPPING key =
     Some (if key = ''string'' then GraphQLString
           else if key = ''integer'' then GraphQLInt
           else if key = ''number'' then GraphQLFloat
           else GraphQLBoolean)"
  by (auto simp: getProperty_object_literal BASIC_TYPE_MAPPING_def)

section \<open>Traversals\<close>



lemma map_throwing_not_isl:
  "(\<And>x. x \<in> set xs \<Longrightarrow> \<not> isl (f x) \<Longrightarrow> \<not> isl (g x)) \<Longrightarrow>
   \<not> isl (map_throwing f xs) \<Longrightarrow> \<not> isl (map_throwing g xs)"
proof (induction xs)
  case Nil
  then show ?case by simp
next
  case (Cons x xs)
  from Cons.prems(2) have x: "\<not> isl (f x)" and xs: "\<not> isl (map_throwing f xs)"
    by (auto split: sum.splits)
  from x have "\<not> isl (g x)"
    by (rule Cons.prems(1) [rotated]) simp
  moreover from xs have "\<not> isl (map_throwing g xs)"
    by (rule Cons.IH [rotated]) (rule Cons.prems(1), simp_all)
  ultimately show ?case
    by (auto split: sum.splits)
qed


section \<open>Nodes visited by the recursion\<close>



lemma eager_nodes_leaf:
  "oneOf s = None \<Longrightarrow> stype s \<noteq> Some (TypeName ''array'') \<Longrightarrow> eager_nodes s = [s]"
  by (subst eager_nodes.simps) simp



section \<open>Invariants of the registry\<close>






text \<open>A successful step of the reducer, for an \<^verbatim>\<open>$id\<close> other than \<^verbatim>\<open>__proto__\<close>.\<close>

lemma schemaReducer_Inr:
  assumes "schemaReducer A P U K kt d = Inr kt'"
  obtains i t where "A (sd_schema d) = None" and "sid (sd_schema d) = Some i"
    and "buildType U K i (sd_schema d) kt (sd_getTypeProperties d) = Inr t"
    and "i \<noteq> ''__proto__'' \<longrightarrow> kt' = kt\<lparr>own := (own kt)(i \<mapsto> t)\<rparr>"
  using assms by (auto simp: schemaReducer_def split: option.splits sum.splits if_splits)

lemma schemaReducer_step:
  "A (sd_schema d) = None \<Longrightarrow> sid (sd_schema d) = Some i \<Longrightarrow> i \<noteq> ''__proto__'' \<Longrightarrow>
   buildType U K i (sd_schema d) kt (sd_getTypeProperties d) = Inr t \<Longrightarrow>
   schemaReducer A P U K kt d = Inr (kt\<lparr>own := (own kt)(i \<mapsto> t)\<rparr>)"
  by (simp add: schemaReducer_def)




text \<open>
  The fold leaves the prototype chain as it is and adds the \<^verbatim>\<open>$id\<close>s to the own keys,
  when no \<^verbatim>\<open>$id\<close> is \<^verbatim>\<open>__proto__\<close>.
\<close>

lemma reduce_registry:
  "reduce (schemaReducer A P U K) docs kt = Inr kt' \<Longrightarrow>
   ''__proto__'' \<notin> set (document_ids docs) \<Longrightarrow>
   inherited kt' = inherited kt \<and> dom (own kt') = dom (own kt) \<union> set (document_ids docs)"
proof (induction docs arbitrary: kt)
  case Nil
  then show ?case
    by simp
next
  case (Cons d ds)
  from Cons.prems(1) obtain kt1 where step: "schemaReducer A P U K kt d = Inr kt1"
    and rest: "reduce (schemaReducer A P U K) ds kt1 = Inr kt'"
    by (auto split: sum.splits)
  from step obtain i t where "A (sd_schema d) = None" and i: "sid (sd_schema d) = Some i"
    and "buildType U K i (sd_schema d) kt (sd_getTypeProperties d) = Inr t"
    and kt1: "i \<noteq> ''__proto__'' \<longrightarrow> kt1 = kt\<lparr>own := (own kt)(i \<mapsto> t)\<rparr>"
    by (rule schemaReducer_Inr)
  from Cons.prems(2) i have ni: "i \<noteq> ''__proto__''"
    and ds: "''__proto__'' \<notin> set (document_ids ds)"
    by auto
  from Cons.IH [OF rest ds]
  have "inherited kt' = inherited kt1 \<and> dom (own kt') = dom (own kt1) \<union> set (document_ids ds)" .
  with i kt1 ni show ?case
    by auto
qed


text \<open>A node whose branch constructs a type yields a nullable type.\<close>

lemma builds_type_nullable:
  assumes "builds_type s" and "buildType U K pn s (kt :: 'x GraphQLTypeMap) g = Inr t"
  shows "isNullableType t"
proof (cases "oneOf s")
  case (Some cases)
  with assms(2) show ?thesis
    by (auto simp: buildType_oneOf split: sum.splits)
next
  case None
  show ?thesis
  proof (cases "stype s = Some (TypeName ''object'')")
    case True
    with None assms(2) show ?thesis
      by (auto simp: buildType_object)
  next
    case obj: False
    show ?thesis
    proof (cases "stype s = Some (TypeName ''array'')")
      case True
      with None assms(2) show ?thesis
        by (auto simp: buildType_array split: option.splits sum.splits)
    next
      case arr: False
      show ?thesis
      proof (cases "senum s")
        case (Some vs)
        with None obj arr assms(2) show ?thesis
          by (auto simp: buildType_enum split: if_splits)
      next
        case enum: None
        with None obj arr assms(1) have ref: "sref s = None"
          and key: "property_key (stype s) \<in> set [''string'', ''integer'', ''number'', ''boolean'']"
          by (auto simp: builds_type_def)
        have "\<exists>v :: 'x gtype.
            getProperty BASIC_TYPE_MAPPING (property_key (stype s)) = Some v \<and> isNullableType v"
          by (simp add: getProperty_primitive [OF key])
        then obtain v :: "'x gtype"
          where v: "getProperty BASIC_TYPE_MAPPING (property_key (stype s)) = Some v"
            and "isNullableType v"
          by blast
        from None obj arr enum ref have "buildType U K pn s kt g = Inr v"
          by (simp add: buildType_basic v)
        with assms(2) \<open>isNullableType v\<close> show ?thesis
          by simp
      qed
    qed
  qed
qed

text \<open>
  A node that compiles against the empty registry compiles against every registry with
  the same prototype chain, and to a nullable type if it did so before.
\<close>

lemma buildType_after_empty:
  assumes "inherited kt = Object_prototype"
  shows "buildType U K pn s empty_object g = Inr t \<Longrightarrow>
         \<exists>t'. buildType U K pn s kt g = Inr t' \<and> (isNullableType t \<longrightarrow> isNullableType t')"
proof (induction s arbitrary: pn t rule: eager_nodes.induct)
  case (1 s)
  show ?case
  proof (cases "oneOf s")
    case (Some cases)
    let ?f = "\<lambda>kt (caseName, caseSchema).
        buildType U K (U pn @ ''.oneOf['' @ caseName @ '']'') (typeSchema caseSchema) kt g"
    from "1.prems" Some
    have "\<not> isl (map_throwing (?f empty_object) (zip (array_keys cases) cases))"
      by (auto simp: buildType_oneOf split: sum.splits)
    moreover have "\<not> isl (?f kt x)"
      if "x \<in> set (zip (array_keys cases) cases)" and "\<not> isl (?f empty_object x)" for x
    proof (cases x)
      case (Pair k c)
      with that(1) have c: "c \<in> set cases"
        by (auto dest: set_zip_rightD)
      from that(2) Pair obtain u
        where "buildType U K (U pn @ ''.oneOf['' @ k @ '']'') (typeSchema c) empty_object g = Inr u"
        by (cases "buildType U K (U pn @ ''.oneOf['' @ k @ '']'') (typeSchema c) empty_object g")
          simp_all
      from "1.IH"(2) [OF Some c this] Pair show ?thesis
        by auto
    qed
    ultimately have "\<not> isl (map_throwing (?f kt) (zip (array_keys cases) cases))"
      by (rule map_throwing_not_isl [rotated])
    with Some show ?thesis
      by (auto simp: buildType_oneOf split: sum.splits)
  next
    case None
    show ?thesis
    proof (cases "stype s = Some (TypeName ''object'')")
      case True
      with None "1.prems" show ?thesis
        by (auto simp: buildType_object)
    next
      case obj: False
      show ?thesis
      proof (cases "stype s = Some (TypeName ''array'')")
        case True
        with None "1.prems" obtain it e where it: "items s = Some it"
          and e: "buildType U K (U pn) it empty_object g = Inr e"
          and ne: "isNullableType e"
          by (auto simp: buildType_array new_GraphQLNonNull_def
              split: option.splits sum.splits if_splits)
        from obj True have "stype s \<noteq> Some (TypeName ''object'') \<and>
            stype s = Some (TypeName ''array'')"
          by simp
        from "1.IH"(1) [OF None this it e] ne obtain e'
          where "buildType U K (U pn) it kt g = Inr e'" and "isNullableType e'"
          by auto
        with None True it show ?thesis
          by (simp add: buildType_array new_GraphQLNonNull_def)
      next
        case arr: False
        show ?thesis
        proof (cases "senum s")
          case (Some vs)
          with None obj arr "1.prems" show ?thesis
            by (auto simp: buildType_enum split: if_splits)
        next
          case enum: None
          show ?thesis
          proof (cases "sref s")
            case (Some r)
            with None obj arr enum have r: "ref_node s r"
              by (simp add: ref_node_def)
            with "1.prems" have t: "Object_prototype r = Some t"
              by (auto simp: buildType_ref getProperty_def split: option.splits)
            then have "\<not> isNullableType t"
              by (auto simp: Object_prototype_def split: if_splits)
            moreover from t assms have "getProperty kt r \<noteq> None"
              by (auto simp: getProperty_def split: option.splits)
            ultimately show ?thesis
              using r by (auto simp: buildType_ref split: option.splits)
          next
            case ref: None
            with None obj arr enum "1.prems" show ?thesis
              by (simp add: buildType_basic)
          qed
        qed
      qed
    qed
  qed
qed

lemma reduce_succeeds:
  assumes "\<forall>d \<in> set docs. A (sd_schema d) = None \<and>
      (\<exists>i. sid (sd_schema d) = Some i \<and>
        \<not> isl (buildType U K i (sd_schema d) empty_object (sd_getTypeProperties d)))"
    and "''__proto__'' \<notin> set (document_ids docs)"
    and "inherited kt = Object_prototype"
  shows "\<not> isl (reduce (schemaReducer A P U K) docs kt)"
  using assms
proof (induction docs arbitrary: kt)
  case Nil
  then show ?case by simp
next
  case (Cons d ds)
  from Cons.prems(1) obtain i u where a: "A (sd_schema d) = None"
    and i: "sid (sd_schema d) = Some i"
    and alone: "buildType U K i (sd_schema d) empty_object (sd_getTypeProperties d) = Inr u"
    by (cases "buildType U K (the (sid (sd_schema d))) (sd_schema d) empty_object
        (sd_getTypeProperties d)") auto
  from Cons.prems(2) i have ni: "i \<noteq> ''__proto__''"
    and ds: "''__proto__'' \<notin> set (document_ids ds)"
    by auto
  from buildType_after_empty [OF Cons.prems(3) alone]
  obtain t where "buildType U K i (sd_schema d) kt (sd_getTypeProperties d) = Inr t"
    by auto
  with a i ni have "schemaReducer A P U K kt d = Inr (kt\<lparr>own := (own kt)(i \<mapsto> t)\<rparr>)"
    by (rule schemaReducer_step)
  moreover from Cons.prems(1,3) ds
  have "\<not> isl (reduce (schemaReducer A P U K) ds (kt\<lparr>own := (own kt)(i \<mapsto> t)\<rparr>))"
    by (intro Cons.IH) simp_all
  ultimately show ?case
    by simp
qed

lemma length_document_ids:
  "\<forall>d \<in> set docs. sid (sd_schema d) \<noteq> None \<Longrightarrow> length (document_ids docs) = length docs"
  by (induction docs) auto


lemma buildDescription_never_empty: "buildDescription d \<noteq> Some []"
  by (cases "title d"; cases "description d") (auto simp: buildDescription_def)


lemma ajv_validateSchema_without_schema: "sschema s = None \<Longrightarrow> ajv_validateSchema s = None"
  by (simp add: ajv_validateSchema_def)

text \<open>The prototype assignment plays no part in a step for another \<^verbatim>\<open>$id\<close>.\<close>

lemma schemaReducer_without_assignment:
  "sid (sd_schema d) \<noteq> Some ''__proto__'' \<Longrightarrow>
   schemaReducer A P U K kt d = schemaReducer A P' U K kt d"
  by (auto simp: schemaReducer_def split: option.splits sum.splits)

section \<open>Unresolved references\<close>


text \<open>
  The test of line 104 is on the value that the property read returns, so a key that
  names a member of \<^verbatim>\<open>Object.prototype\<close> is not reported as unknown, although the
  registry does not hold it.
\<close>

lemma inherited_name_is_found:
  "buildType U K pn (reference_node ''toString'') empty_object g = Inr (Inherited ''toString'')"
proof -
  have "ref_node (reference_node ''toString'') ''toString''"
    by (simp add: ref_node_def reference_node_def)
  then show ?thesis
    by (simp add: buildType_ref empty_object_def getProperty_object_literal
        Object_prototype_names_def)
qed



section \<open>The registry during the fold\<close>




section \<open>Descriptions\<close>

text \<open>
  C3, as stated, fails where a title or a description is present but empty. A node with
  the empty title and no description gets no description at all, not its title; a node
  with the empty title and the description \<^verbatim>\<open>d\<close> gets \<^verbatim>\<open>d\<close>, not \<^verbatim>\<open>: d\<close>.
\<close>

theorem buildDescription_empty_title_counterexample:
  "title (described_node (Some '''') None) = Some '''' \<and>
   description (described_node (Some '''') None) = None \<and>
   buildDescription (described_node (Some '''') None) = None \<and>
   buildDescription (described_node (Some '''') (Some ''d'')) = Some ''d''"
  by (simp add: described_node_def buildDescription_def)

text \<open>
  C3 (amended): for every node, the description composer returns \<^verbatim>\<open><title>: <description>\<close>
  when the title and the description are both present and not empty, returns the one
  that is present and not empty when the other is absent or empty, and otherwise returns
  the no-description value; it never returns the empty string. It is a total function.
\<close>

theorem buildDescription_composes:
  "(title d = Some t \<and> t \<noteq> [] \<and> description d = Some e \<and> e \<noteq> [] \<longrightarrow>
      buildDescription d = Some (t @ '': '' @ e)) \<and>
   (title d = Some t \<and> t \<noteq> [] \<and> (description d = None \<or> description d = Some []) \<longrightarrow>
      buildDescription d = Some t) \<and>
   ((title d = None \<or> title d = Some []) \<and> description d = Some e \<and> e \<noteq> [] \<longrightarrow>
      buildDescription d = Some e) \<and>
   ((title d = None \<or> title d = Some []) \<and> (description d = None \<or> description d = Some []) \<longrightarrow>
      buildDescription d = None) \<and>
   buildDescription d \<noteq> Some []"
  by (cases "title d"; cases "description d") (auto simp: buildDescription_def)

theorem buildDescription_composes_witness:
  "buildDescription (described_node (Some ''Name'') (Some ''A name'')) = Some ''Name: A name'' \<and>
   buildDescription (described_node (Some ''Name'') None) = Some ''Name'' \<and>
   buildDescription (described_node (Some '''') (Some ''A name'')) = Some ''A name'' \<and>
   buildDescription (described_node None (Some '''')) = None"
  using
    buildDescription_composes [of "described_node (Some ''Name'') (Some ''A name'')" "''Name''" "''A name''"]
    buildDescription_composes [of "described_node (Some ''Name'') None" "''Name''" "''x''"]
    buildDescription_composes [of "described_node (Some '''') (Some ''A name'')" "''x''" "''A name''"]
    buildDescription_composes [of "described_node None (Some '''')" "''x''" "''x''"]
  by (simp add: described_node_def)

section \<open>Required and optional fields\<close>




section \<open>Objects without properties\<close>

text \<open>
  C5: for every node of type \<^verbatim>\<open>object\<close> whose \<^verbatim>\<open>properties\<close> is empty or absent,
  \<open>buildType\<close> returns an object type, and the field map that its closure yields, against
  any registry, has exactly one field, named \<^verbatim>\<open>_empty\<close>, of the primitive string type.
\<close>

theorem empty_object_placeholder:
  assumes "oneOf s = None" and "stype s = Some (TypeName ''object'')"
    and "properties s = None \<or> properties s = Some []"
  shows "buildType U K pn s kt g =
           Inr (GraphQLObjectType (U pn) (buildDescription s) (Fields (U pn) s g)
                  (map_option (\<lambda>h. h (U pn) GraphQLObjectType_class) g)) \<and>
         fields U K (Fields (U pn) s g) R =
           Inr [(''_empty'', \<lparr>ftype = GraphQLString, fdescription = None\<rparr>)]"
proof
  from assms(1,2) show "buildType U K pn s kt g =
      Inr (GraphQLObjectType (U pn) (buildDescription s) (Fields (U pn) s g)
             (map_option (\<lambda>h. h (U pn) GraphQLObjectType_class) g))"
    by (rule buildType_object)
next
  from assms(3) have "isEmpty (properties s)"
    by (auto simp: isEmpty_def)
  then show "fields U K (Fields (U pn) s g) R =
      Inr [(''_empty'', \<lparr>ftype = GraphQLString, fdescription = None\<rparr>)]"
    by simp
qed

theorem empty_object_placeholder_witness:
  "oneOf (object_node (Some ''empty'') (Some []) None) = None \<and>
   stype (object_node (Some ''empty'') (Some []) None) = Some (TypeName ''object'') \<and>
   properties (object_node (Some ''empty'') (Some []) None) = Some [] \<and>
   buildType upperCamelCase graphqlSafeEnumKey ''empty''
       (object_node (Some ''empty'') (Some []) None) (empty_object :: unit GraphQLTypeMap) None =
     Inr (GraphQLObjectType ''Empty'' None
            (Fields ''Empty'' (object_node (Some ''empty'') (Some []) None) None) None) \<and>
   fields upperCamelCase graphqlSafeEnumKey
       (Fields ''Empty'' (object_node (Some ''empty'') (Some []) None) None)
       (empty_object :: unit GraphQLTypeMap) =
     Inr [(''_empty'', \<lparr>ftype = GraphQLString, fdescription = None\<rparr>)]"
proof -
  have u: "upperCamelCase ''empty'' = ''Empty''"
    by (simp add: upperCamelCase_def toUpperCase_char_def)
  have d: "buildDescription (object_node (Some ''empty'') (Some []) None) = None"
    by (simp add: buildDescription_def object_node_def)
  have h: "oneOf (object_node (Some ''empty'') (Some []) None) = None"
    "stype (object_node (Some ''empty'') (Some []) None) = Some (TypeName ''object'')"
    "properties (object_node (Some ''empty'') (Some []) None) = Some []"
    by (simp_all add: object_node_def)
  from h(3) have h3: "properties (object_node (Some ''empty'') (Some []) None) = None \<or>
      properties (object_node (Some ''empty'') (Some []) None) = Some []"
    by simp
  show ?thesis
    using empty_object_placeholder [OF h(1) h(2) h3, of upperCamelCase graphqlSafeEnumKey
        "''empty''" "empty_object :: unit GraphQLTypeMap" None "empty_object :: unit GraphQLTypeMap"]
    by (simp add: u d h)
qed

section \<open>Arrays\<close>

text \<open>
  C6, as stated, fails in two cases. A node of type \<^verbatim>\<open>array\<close> without \<^verbatim>\<open>items\<close> has no
  element to build: the recursive call reads a property of \<^verbatim>\<open>undefined\<close> and throws a
  \<^verbatim>\<open>TypeError\<close>. And where the element is built but is not a nullable GraphQL type, the
  constructor of the non-null wrapper throws: for the items \<^verbatim>\<open>{$ref: "toString"}\<close> the
  lookup in the empty registry returns the inherited function, and the array fails.
\<close>

theorem array_without_list_counterexample:
  "oneOf array_without_items = None \<and> stype array_without_items = Some (TypeName ''array'') \<and>
   items array_without_items = None \<and>
   buildType upperCamelCase graphqlSafeEnumKey ''list'' array_without_items
       (empty_object :: unit GraphQLTypeMap) None = Inl TypeError \<and>
   oneOf list_of_toString = None \<and> stype list_of_toString = Some (TypeName ''array'') \<and>
   items list_of_toString = Some (reference_node ''toString'') \<and>
   buildType upperCamelCase graphqlSafeEnumKey (upperCamelCase ''list'')
       (reference_node ''toString'') (empty_object :: unit GraphQLTypeMap) None =
     Inr (Inherited ''toString'') \<and>
   buildType upperCamelCase graphqlSafeEnumKey ''list'' list_of_toString
       (empty_object :: unit GraphQLTypeMap) None = Inl NotANullableType"
proof -
  let ?U = upperCamelCase and ?K = graphqlSafeEnumKey
  let ?kt = "empty_object :: unit GraphQLTypeMap"
  have a: "oneOf array_without_items = None"
    "stype array_without_items = Some (TypeName ''array'')" "items array_without_items = None"
    by (simp_all add: array_without_items_def)
  have missing: "buildType ?U ?K ''list'' array_without_items ?kt None = Inl TypeError"
    by (simp add: buildType_array a)
  have l: "oneOf list_of_toString = None" "stype list_of_toString = Some (TypeName ''array'')"
    "items list_of_toString = Some (reference_node ''toString'')"
    by (simp_all add: list_of_toString_def array_node_def)
  have r: "ref_node (reference_node ''toString'') ''toString''"
    by (simp add: ref_node_def reference_node_def)
  have element: "buildType ?U ?K n (reference_node ''toString'') ?kt None =
      Inr (Inherited ''toString'')" for n
    by (simp add: buildType_ref [OF r] empty_object_def getProperty_object_literal
        Object_prototype_names_def)
  have wrapper: "buildType ?U ?K ''list'' list_of_toString ?kt None = Inl NotANullableType"
    by (simp add: buildType_array l element new_GraphQLNonNull_def)
  from a missing l element wrapper show ?thesis
    by simp
qed

text \<open>
  C6 (amended): for every node of type \<^verbatim>\<open>array\<close> without \<^verbatim>\<open>oneOf\<close> (its type is then not
  \<^verbatim>\<open>object\<close>) that has \<^verbatim>\<open>items\<close>, \<open>buildType\<close> builds the \<^verbatim>\<open>items\<close> node under the array's
  own name, with no suffix. When the element is built and is a nullable GraphQL type,
  the result is the list type of the non-null element type; this is so whenever the
  \<^verbatim>\<open>items\<close> node is itself a union, an object, an array, an enum or a primitive. When
  the element is built and is not a nullable GraphQL type, the array fails in the
  constructor of the non-null wrapper. An error of the element is the error of the
  array.
\<close>

theorem array_wraps_items:
  assumes "oneOf s = None" and "stype s = Some (TypeName ''array'')" and "items s = Some it"
  shows "stype s \<noteq> Some (TypeName ''object'') \<and>
         (\<forall>elementType. buildType U K (U pn) it kt g = Inr elementType \<and>
              (isNullableType elementType \<or> builds_type it) \<longrightarrow>
            buildType U K pn s kt g = Inr (GraphQLList (GraphQLNonNull elementType))) \<and>
         (\<forall>elementType. buildType U K (U pn) it kt g = Inr elementType \<and>
              \<not> isNullableType elementType \<longrightarrow>
            buildType U K pn s kt g = Inl NotANullableType) \<and>
         (\<forall>e. buildType U K (U pn) it kt g = Inl e \<longrightarrow> buildType U K pn s kt g = Inl e)"
proof -
  from assms have build: "buildType U K pn s kt g =
      (case buildType U K (U pn) it kt g of
         Inl e \<Rightarrow> Inl e
       | Inr elementType \<Rightarrow>
           (case new_GraphQLNonNull elementType of
              Inl e \<Rightarrow> Inl e
            | Inr nonNull \<Rightarrow> Inr (GraphQLList nonNull)))"
    by (simp add: buildType_array)
  have shape: "isNullableType elementType"
    if "builds_type it" and "buildType U K (U pn) it kt g = Inr elementType" for elementType
    using that by (rule builds_type_nullable)
  have wraps: "buildType U K pn s kt g = Inr (GraphQLList (GraphQLNonNull elementType))"
    if "buildType U K (U pn) it kt g = Inr elementType"
      and "isNullableType elementType \<or> builds_type it" for elementType
  proof -
    from that shape have "isNullableType elementType"
      by blast
    with that(1) show ?thesis
      by (simp add: build new_GraphQLNonNull_def)
  qed
  have throws: "buildType U K pn s kt g = Inl NotANullableType"
    if "buildType U K (U pn) it kt g = Inr elementType" and "\<not> isNullableType elementType"
    for elementType
    using that by (simp add: build new_GraphQLNonNull_def)
  have passes: "buildType U K pn s kt g = Inl e" if "buildType U K (U pn) it kt g = Inl e" for e
    using that by (simp add: build)
  from assms(2) wraps throws passes show ?thesis
    by simp
qed

theorem array_wraps_items_witness:
  "oneOf (array_node None (array_node None (primitive_node ''integer''))) = None \<and>
   stype (array_node None (array_node None (primitive_node ''integer''))) =
     Some (TypeName ''array'') \<and>
   items (array_node None (array_node None (primitive_node ''integer''))) =
     Some (array_node None (primitive_node ''integer'')) \<and>
   builds_type (array_node None (primitive_node ''integer'')) \<and>
   isNullableType (GraphQLInt :: unit gtype) \<and>
   buildType upperCamelCase graphqlSafeEnumKey ''Grid'' (array_node None (primitive_node ''integer''))
       (empty_object :: unit GraphQLTypeMap) None =
     Inr (GraphQLList (GraphQLNonNull GraphQLInt)) \<and>
   buildType upperCamelCase graphqlSafeEnumKey ''grid''
       (array_node None (array_node None (primitive_node ''integer'')))
       (empty_object :: unit GraphQLTypeMap) None =
     Inr (GraphQLList (GraphQLNonNull (GraphQLList (GraphQLNonNull GraphQLInt)))) \<and>
   items list_of_toString = Some (reference_node ''toString'') \<and>
   \<not> isNullableType (Inherited ''toString'' :: unit gtype) \<and>
   buildType upperCamelCase graphqlSafeEnumKey ''list'' list_of_toString
       (empty_object :: unit GraphQLTypeMap) None = Inl NotANullableType \<and>
   items list_of_C = Some (reference_node ''C'') \<and>
   buildType upperCamelCase graphqlSafeEnumKey ''L'' list_of_C
       (empty_object :: unit GraphQLTypeMap) None =
     Inl (UnknownReference ''C'' (upperCamelCase (upperCamelCase ''L'')))"
proof -
  let ?U = upperCamelCase and ?K = graphqlSafeEnumKey
  let ?inner = "array_node None (primitive_node ''integer'')"
  let ?outer = "array_node None ?inner"
  let ?kt = "empty_object :: unit GraphQLTypeMap"
  have u: "?U ''grid'' = ''Grid''" "?U ''Grid'' = ''Grid''"
    by (simp_all add: upperCamelCase_def toUpperCase_char_def)
  have prim: "buildType ?U ?K ''Grid'' (primitive_node ''integer'') ?kt None = Inr GraphQLInt"
    by (simp add: buildType_basic primitive_node_def getProperty_primitive)
  have h: "oneOf ?outer = None" "stype ?outer = Some (TypeName ''array'')"
    "items ?outer = Some ?inner"
    by (simp_all add: array_node_def)
  have hi: "oneOf ?inner = None" "stype ?inner = Some (TypeName ''array'')"
    "items ?inner = Some (primitive_node ''integer'')"
    by (simp_all add: array_node_def)
  have b: "builds_type ?inner"
    by (simp add: builds_type_def hi)
  have inner: "buildType ?U ?K ''Grid'' ?inner ?kt None = Inr (GraphQLList (GraphQLNonNull GraphQLInt))"
    using array_wraps_items [OF hi, of ?U ?K "''Grid''" ?kt None] prim
    by (simp add: u)
  have outer: "buildType ?U ?K ''grid'' ?outer ?kt None =
      Inr (GraphQLList (GraphQLNonNull (GraphQLList (GraphQLNonNull GraphQLInt))))"
    using array_wraps_items [OF h, of ?U ?K "''grid''" ?kt None] inner b
    by (simp add: u)
  have l: "oneOf list_of_toString = None" "stype list_of_toString = Some (TypeName ''array'')"
    "items list_of_toString = Some (reference_node ''toString'')"
    by (simp_all add: list_of_toString_def array_node_def)
  have c: "oneOf list_of_C = None" "stype list_of_C = Some (TypeName ''array'')"
    "items list_of_C = Some (reference_node ''C'')"
    by (simp_all add: list_of_C_def array_node_def)
  have r: "ref_node (reference_node x) x" for x
    by (simp add: ref_node_def reference_node_def)
  have n: "\<not> isNullableType (Inherited ''toString'' :: unit gtype)"
    by simp
  have "buildType ?U ?K (?U ''list'') (reference_node ''toString'') ?kt None =
      Inr (Inherited ''toString'')"
    by (simp add: buildType_ref [OF r] empty_object_def getProperty_object_literal
        Object_prototype_names_def)
  with n have element: "buildType ?U ?K (?U ''list'') (reference_node ''toString'') ?kt None =
      Inr (Inherited ''toString'') \<and> \<not> isNullableType (Inherited ''toString'' :: unit gtype)"
    by simp
  note thrown = array_wraps_items [OF l, of ?U ?K "''list''" ?kt None, THEN conjunct2,
      THEN conjunct2, THEN conjunct1, THEN spec, THEN mp, OF element]
  have unknown: "buildType ?U ?K (?U ''L'') (reference_node ''C'') ?kt None =
      Inl (UnknownReference ''C'' (?U (?U ''L'')))"
    by (simp add: buildType_ref [OF r] empty_object_def getProperty_object_literal
        Object_prototype_names_def)
  note passed = array_wraps_items [OF c, of ?U ?K "''L''" ?kt None, THEN conjunct2,
      THEN conjunct2, THEN conjunct2, THEN spec, THEN mp, OF unknown]
  have prim': "isNullableType (GraphQLInt :: unit gtype)"
    by simp
  from h b prim' inner outer l(3) n thrown c(3) passed show ?thesis
    by - (intro conjI, assumption+)
qed

section \<open>Enumerations\<close>

text \<open>
  C7: for every node that reaches the enum branch (\<^verbatim>\<open>enum\<close> present, no \<^verbatim>\<open>oneOf\<close>, type
  neither \<^verbatim>\<open>object\<close> nor \<^verbatim>\<open>array\<close>), \<open>buildType\<close> fails if and only if the type is not
  exactly \<^verbatim>\<open>string\<close>; when the type is \<^verbatim>\<open>string\<close> it returns an enum type.
\<close>

theorem enum_requires_string:
  assumes "oneOf s = None" and "stype s \<noteq> Some (TypeName ''object'')"
    and "stype s \<noteq> Some (TypeName ''array'')" and "senum s = Some vs"
  shows "(isl (buildType U K pn s kt g) \<longleftrightarrow> stype s \<noteq> Some (TypeName ''string'')) \<and>
         (stype s \<noteq> Some (TypeName ''string'') \<longrightarrow>
            buildType U K pn s kt g = Inl (OnlyStringEnums (U pn))) \<and>
         (stype s = Some (TypeName ''string'') \<longrightarrow>
            buildType U K pn s kt g =
              Inr (GraphQLEnumType (U pn) (buildDescription s) (keyBy vs K)
                     (map_option (\<lambda>h. h (U pn) GraphQLEnumType_class) g)))"
  using assms by (simp add: buildType_enum)

theorem enum_requires_string_witness:
  "buildType upperCamelCase graphqlSafeEnumKey ''color''
       (enum_node (Some (TypeName ''string'')) [''a'', ''b-c''])
       (empty_object :: unit GraphQLTypeMap) None =
     Inr (GraphQLEnumType ''Color'' None (keyBy [''a'', ''b-c''] graphqlSafeEnumKey) None) \<and>
   keyBy [''a'', ''b-c''] graphqlSafeEnumKey = [''a'' \<mapsto> ''a'', ''b_c'' \<mapsto> ''b-c''] \<and>
   buildType upperCamelCase graphqlSafeEnumKey ''color''
       (enum_node (Some (TypeName ''integer'')) [''a'', ''b-c''])
       (empty_object :: unit GraphQLTypeMap) None =
     Inl (OnlyStringEnums ''Color'') \<and>
   buildType upperCamelCase graphqlSafeEnumKey ''color''
       (enum_node None [''a'', ''b-c''])
       (empty_object :: unit GraphQLTypeMap) None =
     Inl (OnlyStringEnums ''Color'')"
proof -
  let ?U = upperCamelCase and ?K = graphqlSafeEnumKey
  let ?kt = "empty_object :: unit GraphQLTypeMap"
  have u: "?U ''color'' = ''Color''"
    by (simp add: upperCamelCase_def toUpperCase_char_def)
  have k: "keyBy [''a'', ''b-c''] ?K = [''a'' \<mapsto> ''a'', ''b_c'' \<mapsto> ''b-c'']"
    by (simp add: keyBy_def graphqlSafeEnumKey_def)
  have d: "buildDescription (enum_node t [''a'', ''b-c'']) = None" for t
    by (simp add: buildDescription_def enum_node_def)
  have h: "oneOf (enum_node t [''a'', ''b-c'']) = None"
    "senum (enum_node t [''a'', ''b-c'']) = Some [''a'', ''b-c'']"
    "stype (enum_node t [''a'', ''b-c'']) = t" for t
    by (simp_all add: enum_node_def)
  have 1: "stype (enum_node (Some (TypeName ''string'')) [''a'', ''b-c'']) \<noteq> Some (TypeName ''object'')"
    "stype (enum_node (Some (TypeName ''string'')) [''a'', ''b-c'']) \<noteq> Some (TypeName ''array'')"
    by (simp_all add: h)
  have 2: "stype (enum_node (Some (TypeName ''integer'')) [''a'', ''b-c'']) \<noteq> Some (TypeName ''object'')"
    "stype (enum_node (Some (TypeName ''integer'')) [''a'', ''b-c'']) \<noteq> Some (TypeName ''array'')"
    by (simp_all add: h)
  have 3: "stype (enum_node None [''a'', ''b-c'']) \<noteq> Some (TypeName ''object'')"
    "stype (enum_node None [''a'', ''b-c'']) \<noteq> Some (TypeName ''array'')"
    by (simp_all add: h)
  show ?thesis
    using enum_requires_string [OF h(1) 1 h(2), of ?U ?K "''color''" ?kt None]
      enum_requires_string [OF h(1) 2 h(2), of ?U ?K "''color''" ?kt None]
      enum_requires_string [OF h(1) 3 h(2), of ?U ?K "''color''" ?kt None]
    by (simp add: u k d h)
qed

section \<open>Primitives\<close>

text \<open>
  C8: for every node whose only discriminant is a primitive type name (no \<^verbatim>\<open>oneOf\<close>, no
  \<^verbatim>\<open>enum\<close>, no \<^verbatim>\<open>$ref\<close>, type \<^verbatim>\<open>string\<close>, \<^verbatim>\<open>integer\<close>, \<^verbatim>\<open>number\<close> or \<^verbatim>\<open>boolean\<close>),
  \<open>buildType\<close> returns the primitive that \<open>BASIC_TYPE_MAPPING\<close> holds for that name: one
  constant for each name, the same for every qualified name, registry and hook.
\<close>

theorem primitive_is_shared:
  assumes "oneOf s = None" and "senum s = None" and "sref s = None"
    and "stype s = Some (TypeName p)"
    and "p \<in> {''string'', ''integer'', ''number'', ''boolean''}"
  shows "buildType U K pn s (kt :: 'x GraphQLTypeMap) g =
           Inr (if p = ''string'' then GraphQLString
                else if p = ''integer'' then GraphQLInt
                else if p = ''number'' then GraphQLFloat
                else GraphQLBoolean) \<and>
         own (BASIC_TYPE_MAPPING :: 'x GraphQLTypeMap) p =
           Some (if p = ''string'' then GraphQLString
                 else if p = ''integer'' then GraphQLInt
                 else if p = ''number'' then GraphQLFloat
                 else GraphQLBoolean)"
proof -
  from assms(4,5) have t: "stype s \<noteq> Some (TypeName ''object'')"
    "stype s \<noteq> Some (TypeName ''array'')"
    by auto
  from assms(5) have m: "own (BASIC_TYPE_MAPPING :: 'x GraphQLTypeMap) p =
      Some (if p = ''string'' then GraphQLString
            else if p = ''integer'' then GraphQLInt
            else if p = ''number'' then GraphQLFloat
            else GraphQLBoolean)"
    by (auto simp: BASIC_TYPE_MAPPING_def)
  have "buildType U K pn s kt g =
      (case getProperty (BASIC_TYPE_MAPPING :: 'x GraphQLTypeMap) (property_key (stype s)) of
         Some type \<Rightarrow> Inr type
       | None \<Rightarrow> Inl (UnknownType (stype s) (U pn)))"
    using assms(1) t assms(2,3) by (rule buildType_basic)
  with m assms(4) show ?thesis
    by (simp add: getProperty_def)
qed

theorem primitive_is_shared_witness:
  "buildType upperCamelCase graphqlSafeEnumKey ''person.name'' (primitive_node ''string'')
       (empty_object :: unit GraphQLTypeMap) None = Inr GraphQLString \<and>
   buildType id id ''age'' (primitive_node ''integer'')
       (object_literal [''Person'' \<mapsto> GraphQLBoolean]) (Some (\<lambda>n c. n)) = Inr GraphQLInt \<and>
   buildType upperCamelCase graphqlSafeEnumKey ''x'' (primitive_node ''number'')
       (empty_object :: unit GraphQLTypeMap) None = Inr GraphQLFloat \<and>
   buildType upperCamelCase graphqlSafeEnumKey ''y'' (primitive_node ''boolean'')
       (empty_object :: unit GraphQLTypeMap) None = Inr GraphQLBoolean"
proof -
  have h: "oneOf (primitive_node p) = None" "senum (primitive_node p) = None"
    "sref (primitive_node p) = None" "stype (primitive_node p) = Some (TypeName p)" for p
    by (simp_all add: primitive_node_def)
  show ?thesis
    using
      primitive_is_shared [OF h, of "''string''" upperCamelCase graphqlSafeEnumKey
        "''person.name''" "empty_object :: unit GraphQLTypeMap" None]
      primitive_is_shared [OF h, of "''integer''" id id "''age''"
        "object_literal [''Person'' \<mapsto> GraphQLBoolean]" "Some (\<lambda>n c. n)"]
      primitive_is_shared [OF h, of "''number''" upperCamelCase graphqlSafeEnumKey
        "''x''" "empty_object :: unit GraphQLTypeMap" None]
      primitive_is_shared [OF h, of "''boolean''" upperCamelCase graphqlSafeEnumKey
        "''y''" "empty_object :: unit GraphQLTypeMap" None]
    by simp
qed

section \<open>Independent documents\<close>

text \<open>
  C9, as stated, fails in two ways. Two documents with the same \<^verbatim>\<open>$id\<close>, neither with a
  \<^verbatim>\<open>$ref\<close>, give a registry with one entry, the second type under the shared key. And a
  document with an \<^verbatim>\<open>$id\<close> and no \<^verbatim>\<open>$ref\<close> need not compile: one without any shape
  makes the fold fail, so that there is no registry.
\<close>

theorem duplicate_id_counterexample:
  "sid first_A = Some ''A'' \<and> sid second_A = Some ''A'' \<and>
   eager_nodes first_A = [first_A] \<and> eager_nodes second_A = [second_A] \<and>
   sref first_A = None \<and> sref second_A = None \<and>
   convert_types ajv_validateSchema assigned_prototype upperCamelCase graphqlSafeEnumKey
       [first_A, second_A] (None :: unit GetTypeProperties option) =
     Inr (object_literal [''A'' \<mapsto> GraphQLInt]) \<and>
   card (dom (own (object_literal [''A'' \<mapsto> (GraphQLInt :: unit gtype)]))) = 1 \<and>
   length [first_A, second_A] = 2 \<and>
   sid shapeless_A = Some ''A'' \<and> sref shapeless_A = None \<and>
   convert_types ajv_validateSchema assigned_prototype upperCamelCase graphqlSafeEnumKey
       [shapeless_A] (None :: unit GetTypeProperties option) =
     Inl (UnknownType None ''A'')"
proof -
  let ?U = upperCamelCase and ?K = graphqlSafeEnumKey
  let ?f = "schemaReducer ajv_validateSchema assigned_prototype ?U ?K"
  have u: "?U ''A'' = ''A''"
    by (simp add: upperCamelCase_def toUpperCase_char_def)
  have a: "sid first_A = Some ''A''" "oneOf first_A = None"
    "stype first_A = Some (TypeName ''string'')" "senum first_A = None" "sref first_A = None"
    "sid second_A = Some ''A''" "oneOf second_A = None"
    "stype second_A = Some (TypeName ''integer'')" "senum second_A = None"
    "sref second_A = None"
    "sid shapeless_A = Some ''A''" "oneOf shapeless_A = None"
    "stype shapeless_A = None" "senum shapeless_A = None" "sref shapeless_A = None"
    "sschema first_A = None" "sschema second_A = None" "sschema shapeless_A = None"
    by (simp_all add: first_A_def second_A_def shapeless_A_def with_id_def primitive_node_def
        described_node_def)
  have e: "eager_nodes first_A = [first_A]" "eager_nodes second_A = [second_A]"
    by (simp_all add: eager_nodes_leaf a)
  have 1: "?f empty_object
      \<lparr>sd_schema = first_A, sd_getTypeProperties = (None :: unit GetTypeProperties option)\<rparr> =
      Inr (object_literal [''A'' \<mapsto> GraphQLString])"
    by (simp add: schemaReducer_def ajv_validateSchema_without_schema a buildType_basic
        getProperty_primitive empty_object_def)
  have 2: "?f (object_literal [''A'' \<mapsto> GraphQLString])
      \<lparr>sd_schema = second_A, sd_getTypeProperties = (None :: unit GetTypeProperties option)\<rparr> =
      Inr (object_literal [''A'' \<mapsto> GraphQLInt])"
    by (simp add: schemaReducer_def ajv_validateSchema_without_schema a buildType_basic
        getProperty_primitive)
  have 3: "?f empty_object
      \<lparr>sd_schema = shapeless_A, sd_getTypeProperties = (None :: unit GetTypeProperties option)\<rparr> =
      Inl (UnknownType None ''A'')"
    by (simp add: schemaReducer_def ajv_validateSchema_without_schema a buildType_basic
        getProperty_object_literal BASIC_TYPE_MAPPING_def Object_prototype_names_def u)
  show ?thesis
    by (simp add: convert_types_def 1 2 3 a e)
qed

text \<open>
  C9 (amended): for every batch of N top-level documents, each passing the Ajv call of
  line 31 without an exception, each carrying an \<^verbatim>\<open>$id\<close> and each compiling on its own,
  that is against the empty registry, with pairwise distinct \<^verbatim>\<open>$id\<close>s none of which is
  \<^verbatim>\<open>__proto__\<close>, folding the batch with \<open>schemaReducer\<close> over the empty registry succeeds
  and produces a registry with exactly N entries, keyed exactly by the N \<^verbatim>\<open>$id\<close>s.
\<close>

theorem independent_batch_registry:
  assumes "\<forall>d \<in> set docs. A (sd_schema d) = None \<and>
      (\<exists>i. sid (sd_schema d) = Some i \<and>
        \<not> isl (buildType U K i (sd_schema d) empty_object (sd_getTypeProperties d)))"
    and "distinct (document_ids docs)"
    and "''__proto__'' \<notin> set (document_ids docs)"
  shows "\<exists>reg. reduce (schemaReducer A P U K) docs empty_object = Inr reg \<and>
           dom (own reg) = set (document_ids docs) \<and> card (dom (own reg)) = length docs"
proof -
  have "\<not> isl (reduce (schemaReducer A P U K) docs empty_object)"
    using assms(1,3) by (rule reduce_succeeds) simp
  then obtain reg where reg: "reduce (schemaReducer A P U K) docs empty_object = Inr reg"
    by (cases "reduce (schemaReducer A P U K) docs empty_object") simp_all
  from reduce_registry [OF reg assms(3)] have keys: "dom (own reg) = set (document_ids docs)"
    by simp
  from assms(1) have "length (document_ids docs) = length docs"
    by (intro length_document_ids) auto
  with assms(2) keys have "card (dom (own reg)) = length docs"
    by (simp add: distinct_card)
  with reg keys show ?thesis
    by simp
qed

theorem independent_batch_registry_witness:
  "reduce (schemaReducer ajv_validateSchema assigned_prototype upperCamelCase graphqlSafeEnumKey)
       [\<lparr>sd_schema = address_document, sd_getTypeProperties = None\<rparr>,
        \<lparr>sd_schema = string_B, sd_getTypeProperties = None\<rparr>] empty_object =
     Inr (object_literal [''address'' \<mapsto> type_address, ''B'' \<mapsto> GraphQLString]) \<and>
   ajv_validateSchema address_document = None \<and> ajv_validateSchema string_B = None \<and>
   document_ids [\<lparr>sd_schema = address_document,
        sd_getTypeProperties = (None :: unit GetTypeProperties option)\<rparr>,
      \<lparr>sd_schema = string_B, sd_getTypeProperties = None\<rparr>] = [''address'', ''B''] \<and>
   dom (own (object_literal [''address'' \<mapsto> type_address, ''B'' \<mapsto> GraphQLString])) =
     {''address'', ''B''} \<and>
   card (dom (own (object_literal [''address'' \<mapsto> type_address, ''B'' \<mapsto> GraphQLString]))) = 2"
proof -
  let ?U = upperCamelCase and ?K = graphqlSafeEnumKey
  let ?f = "schemaReducer ajv_validateSchema assigned_prototype ?U ?K"
  let ?docs = "[\<lparr>sd_schema = address_document,
        sd_getTypeProperties = (None :: unit GetTypeProperties option)\<rparr>,
      \<lparr>sd_schema = string_B, sd_getTypeProperties = None\<rparr>]"
  have a: "sid address_document = Some ''address''" "oneOf address_document = None"
    "stype address_document = Some (TypeName ''object'')"
    "buildDescription address_document = None" "sschema address_document = None"
    by (simp_all add: address_document_def object_node_def buildDescription_def)
  have b: "sid string_B = Some ''B''" "oneOf string_B = None"
    "stype string_B = Some (TypeName ''string'')" "senum string_B = None"
    "sref string_B = None" "sschema string_B = None"
    by (simp_all add: string_B_def with_id_def primitive_node_def)
  have v: "ajv_validateSchema address_document = None" "ajv_validateSchema string_B = None"
    by (simp_all add: ajv_validateSchema_without_schema a b)
  have build_A: "buildType ?U ?K ''address'' address_document kt None = Inr type_address"
    for kt :: "unit GraphQLTypeMap"
    by (simp add: a buildType_object upperCamelCase_examples type_address_def)
  have build_B: "buildType ?U ?K ''B'' string_B kt None = Inr GraphQLString"
    for kt :: "unit GraphQLTypeMap"
    by (simp add: b buildType_basic getProperty_primitive)
  have alone: "\<forall>d \<in> set ?docs. ajv_validateSchema (sd_schema d) = None \<and>
      (\<exists>i. sid (sd_schema d) = Some i \<and>
        \<not> isl (buildType ?U ?K i (sd_schema d) empty_object (sd_getTypeProperties d)))"
    by (simp add: a b v build_A build_B)
  have ids: "document_ids ?docs = [''address'', ''B'']"
    by (simp add: a b)
  then have d: "distinct (document_ids ?docs)" and p: "''__proto__'' \<notin> set (document_ids ?docs)"
    by simp_all
  have fold: "reduce ?f ?docs empty_object =
      Inr (object_literal [''address'' \<mapsto> type_address, ''B'' \<mapsto> GraphQLString])"
    by (simp add: schemaReducer_def v a b build_A build_B empty_object_def)
  have keys: "dom (own (object_literal
      [''address'' \<mapsto> type_address, ''B'' \<mapsto> (GraphQLString :: unit gtype)])) =
      {''address'', ''B''}"
    by (simp add: insert_commute)
  have "\<exists>reg. Inr (object_literal
        [''address'' \<mapsto> type_address, ''B'' \<mapsto> (GraphQLString :: unit gtype)]) =
        (Inr reg :: error + unit GraphQLTypeMap) \<and>
      dom (own reg) = set (document_ids ?docs) \<and> card (dom (own reg)) = length ?docs"
    using independent_batch_registry [OF alone d p, of assigned_prototype]
    unfolding fold .
  then have size: "card (dom (own (object_literal
      [''address'' \<mapsto> type_address, ''B'' \<mapsto> (GraphQLString :: unit gtype)]))) = 2"
    by (elim exE conjE) (simp del: dom_fun_upd)
  from fold v ids keys size show ?thesis
    by - (intro conjI, assumption+)
qed

section \<open>Registry keys and type names\<close>





end
